theory Spec2Isabelle
  imports Complex_Main
begin

section \<open>The marker-to-robot pipeline of miscare\_robot.py\<close>

text \<open>
  The development embeds the control core of \<^verbatim>\<open>AprilTagApp\<close>: the camera handle
  (\<^verbatim>\<open>change_camera\<close>), the pixel-to-robot transform
  (\<^verbatim>\<open>convert_to_robot_coordinates\<close>), the pick sequence (\<^verbatim>\<open>move_to_qr\<close>) and the
  per-tick handler (\<^verbatim>\<open>update_frame\<close>).

  Modelling conventions.
  \<^item> Python floats (timestamps, metres, corner coordinates) are exact rationals; rounding
    of IEEE arithmetic is not modelled.
  \<^item> Calls into OpenCV, the clock and RoboDK are inputs of a tick: what
    \<^verbatim>\<open>cap.read()\<close>, \<^verbatim>\<open>detectMarkers\<close>, \<^verbatim>\<open>time.time()\<close> and the robot answered.
  \<^item> An exception raised by a RoboDK call leaves \<^verbatim>\<open>update_frame\<close> at the point of the
    call: the statements after it are not executed. The source has no handler and never
    stops the timer, so the next tick starts from the fields the raising call left.
  \<^item> Widget styling and drawing are left out; the numeric payload of each overlay is kept.
\<close>

subsection \<open>Data\<close>

type_synonym point = "rat \<times> rat"

text \<open>One entry of \<^verbatim>\<open>corners\<close> after \<^verbatim>\<open>reshape((4, 2))\<close>: four corner points.\<close>

type_synonym quad = "point \<times> point \<times> point \<times> point"

record marker =
  tag_id :: int
  corner :: quad

text \<open>A \<^verbatim>\<open>cv2.VideoCapture\<close> handle: the device index and what \<^verbatim>\<open>isOpened()\<close> says.\<close>

record capture =
  cam_index :: int
  opened :: bool

datatype cam_event = Release int | Acquire int

text \<open>
  The pose object of RoboDK: an orientation, which the program never changes (an opaque
  token here), and a position in millimetres, which \<^verbatim>\<open>setPos\<close> overwrites.
\<close>

record pose =
  rot :: nat
  pos :: "rat \<times> rat \<times> rat"

datatype robot_cmd = PoseQuery | MoveJ pose | RunInstruction string

datatype error = RobotError | AttributeError

text \<open>Payload of one overlay: the drawn centre, the relative coordinates, the seed name.\<close>

record annotation =
  ann_center :: "int \<times> int"
  ann_rel :: "int \<times> int"
  ann_seed :: "string option"

datatype label_content = LText string | LPixmap "annotation list"

record app =
  last_move_time :: rat
  move_delay :: rat
  cap :: "capture option"
  video_label :: label_content
  distance_label :: string

text \<open>
  What the outside world answers during one call of \<^verbatim>\<open>update_frame\<close>:
  \<^verbatim>\<open>ret\<close> and the frame size from \<^verbatim>\<open>cap.read()\<close>, the detector's output in its own order
  (\<^verbatim>\<open>ids is None\<close> is the empty list), the clock, the pose that \<^verbatim>\<open>robot.Pose()\<close>
  returns and which robot calls return normally (the others raise).
\<close>

record tick =
  ret :: bool
  width :: int
  height :: int
  detections :: "marker list"
  now :: rat
  robot_pose :: pose
  accepts :: "robot_cmd \<Rightarrow> bool"

text \<open>
  The result of one call of \<^verbatim>\<open>update_frame\<close>: the exception that left it (if any), the
  arguments of the \<^verbatim>\<open>move_to_qr\<close> call it made (if any), the robot calls it made, in
  order, and the object's fields afterwards.
\<close>

record step =
  raised :: "error option"
  dispatched :: "(rat \<times> rat \<times> rat) option"
  calls :: "robot_cmd list"
  after :: app

subsection \<open>Initial state and camera switching\<close>

definition tag_info :: "int \<Rightarrow> string option" where
  "tag_info = map_of
     [(1, ''Porumb''), (2, ''Orz''), (3, ''Orez''), (4, ''Grau''), (5, ''Soia''),
      (6, ''Adauga''), (7, ''Adauga''), (8, ''Adauga''), (9, ''Adauga''), (10, ''Adauga'')]"

text \<open>
  \<^verbatim>\<open>cv2.VideoCapture(i)\<close> does not raise for a device that is absent: it returns a
  handle whose \<^verbatim>\<open>isOpened()\<close> is false. \<open>avail\<close> says which indices can be opened.
\<close>

definition VideoCapture :: "(int \<Rightarrow> bool) \<Rightarrow> int \<Rightarrow> capture" where
  "VideoCapture avail i = \<lparr>cam_index = i, opened = avail i\<rparr>"

definition init :: "(int \<Rightarrow> bool) \<Rightarrow> app" where
  "init avail =
     (let c = VideoCapture avail 0 in
      \<lparr>last_move_time = 0,
       move_delay = 3,
       cap = Some c,
       video_label = (if \<not> opened c then LText ''Camera not plugged in'' else LText ''''),
       distance_label = ''Distance: N/A''\<rparr>)"

text \<open>
  \<^verbatim>\<open>change_camera\<close>: the handle events it causes, in order, and the fields afterwards.
  \<open>new_index\<close> is \<^verbatim>\<open>int(self.camera_combo.currentText())\<close>.
\<close>

definition change_camera :: "(int \<Rightarrow> bool) \<Rightarrow> int \<Rightarrow> app \<Rightarrow> cam_event list \<times> app" where
  "change_camera avail new_index s =
     (let released = (case cap s of None \<Rightarrow> [] | Some c \<Rightarrow> [Release (cam_index c)]);
          c' = VideoCapture avail new_index
      in (released @ [Acquire new_index],
          s\<lparr>cap := Some c',
            video_label := (if \<not> opened c' then LText ''Camera not plugged in''
                            else LText '''')\<rparr>))"

subsection \<open>Geometry\<close>

definition convert_to_robot_coordinates :: "int \<Rightarrow> int \<Rightarrow> rat \<times> rat \<times> rat" where
  "convert_to_robot_coordinates rel_x rel_y =
     (let x_robot = of_int rel_x / 1000;
          y_robot = of_int rel_y / 1000;
          z_robot = 1 / 10
      in (x_robot, y_robot, z_robot))"

text \<open>\<^verbatim>\<open>astype(int)\<close> on a float: truncation toward zero.\<close>

definition astype_int :: "rat \<Rightarrow> int" where
  "astype_int q = (if 0 \<le> q then \<lfloor>q\<rfloor> else \<lceil>q\<rceil>)"

text \<open>\<^verbatim>\<open>mean(axis=0)\<close> of the 4 by 2 array: the mean of each column.\<close>

fun mean_axis0 :: "quad \<Rightarrow> point" where
  "mean_axis0 ((x1, y1), (x2, y2), (x3, y3), (x4, y4)) =
     ((x1 + x2 + x3 + x4) / 4, (y1 + y2 + y3 + y4) / 4)"

definition marker_center :: "quad \<Rightarrow> int \<times> int" where
  "marker_center q = (astype_int (fst (mean_axis0 q)), astype_int (snd (mean_axis0 q)))"

definition center_frame :: "int \<Rightarrow> int \<Rightarrow> int \<times> int" where
  "center_frame w h = (w div 2, h div 2)"

text \<open>Lines 289 and 290 (and 299, 300): the coordinates relative to the frame centre.\<close>

definition rel_coords :: "int \<times> int \<Rightarrow> int \<times> int \<Rightarrow> int \<times> int" where
  "rel_coords mc cf = (fst mc - fst cf, snd cf - snd mc)"

text \<open>Lines 289 to 291: from the drawn centre and the frame centre to the robot target.\<close>

definition robot_target :: "int \<times> int \<Rightarrow> int \<times> int \<Rightarrow> rat \<times> rat \<times> rat" where
  "robot_target mc cf =
     convert_to_robot_coordinates (fst (rel_coords mc cf)) (snd (rel_coords mc cf))"

subsection \<open>The pick sequence\<close>

text \<open>
  \<^verbatim>\<open>move_to_qr\<close>: the robot calls made, in order, and whether the method returned
  normally. A call that the robot does not accept raises, and the calls after it are not
  made. The two \<^verbatim>\<open>time.sleep(1)\<close> and the final \<^verbatim>\<open>print\<close> do not reach the robot.
\<close>

definition move_to_qr ::
  "(robot_cmd \<Rightarrow> bool) \<Rightarrow> pose \<Rightarrow> rat \<Rightarrow> rat \<Rightarrow> rat \<Rightarrow> robot_cmd list \<times> bool" where
  "move_to_qr acc p0 x y z =
     (let p1 = p0\<lparr>pos := (x * 1000, y * 1000, z * 1000)\<rparr>;
          p2 = p1\<lparr>pos := (x * 1000, y * 1000, (z + 1 / 10) * 1000)\<rparr>
      in if \<not> acc PoseQuery then ([PoseQuery], False)
         else if \<not> acc (MoveJ p1) then ([PoseQuery, MoveJ p1], False)
         else if \<not> acc (RunInstruction ''GripperClose'')
           then ([PoseQuery, MoveJ p1, RunInstruction ''GripperClose''], False)
         else if \<not> acc (MoveJ p2)
           then ([PoseQuery, MoveJ p1, RunInstruction ''GripperClose'', MoveJ p2], False)
         else ([PoseQuery, MoveJ p1, RunInstruction ''GripperClose'', MoveJ p2], True))"

subsection \<open>One tick\<close>

text \<open>The loop of lines 296 to 314, one payload per detected marker.\<close>

definition annotate :: "int \<times> int \<Rightarrow> marker \<Rightarrow> annotation" where
  "annotate cf m =
     (let mc = marker_center (corner m)
      in \<lparr>ann_center = mc, ann_rel = rel_coords mc cf, ann_seed = tag_info (tag_id m)\<rparr>)"

definition update_frame :: "tick \<Rightarrow> app \<Rightarrow> step" where
  "update_frame t s =
     (case cap s of
        None \<Rightarrow> \<lparr>raised = Some AttributeError, dispatched = None, calls = [], after = s\<rparr>
      | Some c \<Rightarrow>
          if \<not> opened c then
            \<lparr>raised = None, dispatched = None, calls = [],
             after = s\<lparr>video_label := LText ''Camera not plugged in''\<rparr>\<rparr>
          else if ret t then
            (let cf = center_frame (width t) (height t) in
             case detections t of
               [] \<Rightarrow>
                 \<lparr>raised = None, dispatched = None, calls = [],
                  after = s\<lparr>distance_label := ''Distance: N/A'',
                            video_label := LPixmap []\<rparr>\<rparr>
             | m # ms \<Rightarrow>
                 (let current_time = now t;
                      shown = s\<lparr>distance_label := ''Distance: Calculated'',
                                video_label := LPixmap (map (annotate cf) (m # ms))\<rparr>
                  in if current_time - last_move_time s > move_delay s then
                       (let (x_robot, y_robot, z_robot) =
                              robot_target (marker_center (corner m)) cf;
                            (cs, ok) =
                              move_to_qr (accepts t) (robot_pose t) x_robot y_robot z_robot
                        in if ok then
                             \<lparr>raised = None,
                              dispatched = Some (x_robot, y_robot, z_robot),
                              calls = cs,
                              after = shown\<lparr>last_move_time := current_time\<rparr>\<rparr>
                           else
                             \<lparr>raised = Some RobotError,
                              dispatched = Some (x_robot, y_robot, z_robot),
                              calls = cs,
                              after = s\<rparr>)
                     else
                       \<lparr>raised = None, dispatched = None, calls = [], after = shown\<rparr>))
          else
            \<lparr>raised = None, dispatched = None, calls = [],
             after = s\<lparr>video_label := LText ''Camera not plugged in''\<rparr>\<rparr>)"

subsection \<open>Runs\<close>

text \<open>
  The timer of lines 145 to 147 calls \<^verbatim>\<open>update_frame\<close> once per tick and is stopped only by
  \<^verbatim>\<open>close_app\<close>. A tick that raised has left the object as \<open>after\<close> says, and the next tick
  starts from there. \<open>dispatch_times\<close> lists the timestamps of the ticks that called
  \<^verbatim>\<open>move_to_qr\<close>, in order; \<open>dispatches_in_window a\<close> counts those in the closed window
  from \<open>a\<close> to \<open>a + move_delay\<close>.
\<close>

fun run :: "tick list \<Rightarrow> app \<Rightarrow> step list" where
  "run [] s = []"
| "run (t # ts) s = (let r = update_frame t s in r # run ts (after r))"

fun dispatch_times :: "tick list \<Rightarrow> app \<Rightarrow> rat list" where
  "dispatch_times [] s = []"
| "dispatch_times (t # ts) s =
     (let r = update_frame t s;
          rest = dispatch_times ts (after r)
      in if dispatched r = None then rest else now t # rest)"

definition dispatches_in_window :: "rat \<Rightarrow> tick list \<Rightarrow> app \<Rightarrow> nat" where
  "dispatches_in_window a ts s =
     length (filter (\<lambda>d. a \<le> d \<and> d \<le> a + move_delay s) (dispatch_times ts s))"

subsection \<open>Spacing of timestamps\<close>

text \<open>
  \<open>spaced d l xs\<close>: the first element of \<open>xs\<close> is more than \<open>d\<close> after \<open>l\<close>, and each
  element is more than \<open>d\<close> after the one before it.
\<close>

fun spaced :: "rat \<Rightarrow> rat \<Rightarrow> rat list \<Rightarrow> bool" where
  "spaced d l [] = True"
| "spaced d l (x # xs) = (x - l > d \<and> spaced d x xs)"

subsection \<open>Sample inputs\<close>

definition unit_square :: quad where
  "unit_square = ((0, 0), (1, 0), (1, 1), (0, 1))"

definition sample_quad :: quad where
  "sample_quad = ((730, 250), (750, 250), (750, 270), (730, 270))"

definition sample_pose :: pose where
  "sample_pose = \<lparr>rot = 0, pos = (0, 0, 0)\<rparr>"

definition always_ok :: "robot_cmd \<Rightarrow> bool" where
  "always_ok c = True"

text \<open>A robot that answers the pose query and refuses every other call.\<close>

definition refuses_moves :: "robot_cmd \<Rightarrow> bool" where
  "refuses_moves c = (c = PoseQuery)"

definition all_cameras :: "int \<Rightarrow> bool" where
  "all_cameras i = True"

definition only_camera0 :: "int \<Rightarrow> bool" where
  "only_camera0 i = (i = 0)"

text \<open>A 1280 by 720 frame with two markers, the first centred at (740, 260).\<close>

definition sample_tick :: "rat \<Rightarrow> (robot_cmd \<Rightarrow> bool) \<Rightarrow> tick" where
  "sample_tick n acc =
     \<lparr>ret = True, width = 1280, height = 720,
      detections = [\<lparr>tag_id = 1, corner = sample_quad\<rparr>, \<lparr>tag_id = 42, corner = unit_square\<rparr>],
      now = n, robot_pose = sample_pose, accepts = acc\<rparr>"

definition empty_tick :: "rat \<Rightarrow> tick" where
  "empty_tick n =
     \<lparr>ret = True, width = 1280, height = 720, detections = [],
      now = n, robot_pose = sample_pose, accepts = always_ok\<rparr>"

section \<open>Properties\<close>

subsection \<open>Coordinate transform\<close>

text \<open>
  C4. For every centre and origin the transform returns
  \<open>x = (cx - ox) * 0.001\<close>, \<open>y = (oy - cy) * 0.001\<close> and the constant height \<open>0.1\<close>;
  a 1280 by 720 frame has origin (640, 360), where the centre (740, 260) maps to
  (0.1, 0.1, 0.1); centres at origin + (dx, dy) and origin - (dx, dy) give negated x and y.
\<close>

theorem C4_transform:
  "robot_target (cx, cy) (ox, oy) =
     (of_int (cx - ox) * (1 / 1000), of_int (oy - cy) * (1 / 1000), 1 / 10)
   \<and> center_frame 1280 720 = (640, 360)
   \<and> robot_target (740, 260) (center_frame 1280 720) = (1 / 10, 1 / 10, 1 / 10)
   \<and> fst (robot_target (ox - dx, oy - dy) (ox, oy))
       = - fst (robot_target (ox + dx, oy + dy) (ox, oy))
   \<and> fst (snd (robot_target (ox - dx, oy - dy) (ox, oy)))
       = - fst (snd (robot_target (ox + dx, oy + dy) (ox, oy)))
   \<and> snd (snd (robot_target (ox - dx, oy - dy) (ox, oy)))
       = snd (snd (robot_target (ox + dx, oy + dy) (ox, oy)))"
  by (simp add: robot_target_def rel_coords_def convert_to_robot_coordinates_def
      center_frame_def)

subsection \<open>Facts about one tick\<close>

lemma update_frame_delay: "move_delay (after (update_frame t s)) = move_delay s"
  by (simp add: update_frame_def Let_def split: option.splits list.splits prod.splits)

lemma update_frame_dispatched:
  "dispatched (update_frame t s) \<noteq> None \<Longrightarrow> now t - last_move_time s > move_delay s"
  by (simp add: update_frame_def Let_def split: option.splits list.splits prod.splits if_splits)

lemma update_frame_last:
  "raised (update_frame t s) = None \<Longrightarrow>
   last_move_time (after (update_frame t s)) =
     (if dispatched (update_frame t s) = None then last_move_time s else now t)"
  by (simp add: update_frame_def Let_def split: option.splits list.splits prod.splits if_splits)

text \<open>The robot is called in a tick exactly when \<^verbatim>\<open>move_to_qr\<close> is.\<close>

lemma dispatched_iff_calls:
  "dispatched (update_frame t s) = None \<longleftrightarrow> calls (update_frame t s) = []"
  by (auto simp add: update_frame_def move_to_qr_def Let_def
      split: option.splits list.splits prod.splits if_splits)

subsection \<open>Cooldown while every tick returns\<close>

lemma spaced_dispatch_times:
  "\<forall>r \<in> set (run ts s). raised r = None \<Longrightarrow>
   spaced (move_delay s) (last_move_time s) (dispatch_times ts s)"
proof (induction ts arbitrary: s)
  case Nil
  show ?case by simp
next
  case (Cons t ts)
  let ?r = "update_frame t s"
  have d: "move_delay (after ?r) = move_delay s" by (rule update_frame_delay)
  from Cons.prems have ok: "raised ?r = None"
    and rest: "\<forall>r \<in> set (run ts (after ?r)). raised r = None"
    by (simp_all add: Let_def)
  note ih = Cons.IH [OF rest]
  show ?case
  proof (cases "dispatched ?r = None")
    case True
    with update_frame_last [OF ok] ih d show ?thesis
      by (simp add: Let_def)
  next
    case False
    with update_frame_last [OF ok] ih d update_frame_dispatched [OF False] show ?thesis
      by (auto simp add: Let_def)
  qed
qed

lemma spaced_above: "spaced d l xs \<Longrightarrow> 0 \<le> d \<Longrightarrow> y \<in> set xs \<Longrightarrow> l + d < y"
proof (induction xs arbitrary: l)
  case Nil
  then show ?case by simp
next
  case (Cons x xs)
  then show ?case by fastforce
qed

lemma spaced_window:
  "spaced d l xs \<Longrightarrow> length (filter (\<lambda>x. a \<le> x \<and> x \<le> a + d) xs) \<le> 1"
proof (induction xs arbitrary: l)
  case Nil
  then show ?case by simp
next
  case (Cons x xs)
  then have sp: "spaced d x xs" by simp
  show ?case
  proof (cases "a \<le> x \<and> x \<le> a + d")
    case True
    then have "0 \<le> d" by linarith
    with sp have "\<forall>y \<in> set xs. x + d < y" using spaced_above by blast
    with True have "filter (\<lambda>x. a \<le> x \<and> x \<le> a + d) xs = []"
      by (auto simp: filter_empty_conv)
    with True show ?thesis by simp
  next
    case False
    with Cons.IH[OF sp] show ?thesis by auto
  qed
qed

text \<open>
  While no tick raises, the cooldown holds: from every state and for every window, at most
  one tick in the window calls \<^verbatim>\<open>move_to_qr\<close>.
\<close>

lemma one_dispatch_per_window_if_no_raise:
  "\<forall>r \<in> set (run ts s). raised r = None \<Longrightarrow> dispatches_in_window a ts s \<le> 1"
  unfolding dispatches_in_window_def
  by (rule spaced_window [OF spaced_dispatch_times])

subsection \<open>Evaluation on the sample inputs\<close>

lemmas sample_defs = sample_tick_def empty_tick_def init_def VideoCapture_def all_cameras_def
  only_camera0_def always_ok_def refuses_moves_def sample_quad_def unit_square_def sample_pose_def

lemmas uf_defs = update_frame_def move_to_qr_def robot_target_def rel_coords_def
  convert_to_robot_coordinates_def center_frame_def marker_center_def astype_int_def Let_def

subsection \<open>The gate\<close>

text \<open>
  C2, as stated, fails at the boundary: with \<open>now - last_move_time = move_delay\<close> and two
  markers in view nothing is dispatched and the timestamp is not set; line 285 compares
  with \<^verbatim>\<open>>\<close>.
\<close>

theorem C2_boundary_counterexample:
  "now (sample_tick 3 always_ok) - last_move_time (init all_cameras) = move_delay (init all_cameras)
   \<and> detections (sample_tick 3 always_ok) \<noteq> []
   \<and> dispatched (update_frame (sample_tick 3 always_ok) (init all_cameras)) = None
   \<and> calls (update_frame (sample_tick 3 always_ok) (init all_cameras)) = []
   \<and> last_move_time (after (update_frame (sample_tick 3 always_ok) (init all_cameras)))
       \<noteq> now (sample_tick 3 always_ok)"
  by (simp add: sample_defs uf_defs)

text \<open>
  C2, as amended. For every tick with an open camera, a frame, a non-empty detection list
  and \<open>now - last_move_time > move_delay\<close> (strictly), \<^verbatim>\<open>move_to_qr\<close> is called with the
  target of the first detection in detector order, the robot is called, and the timestamp
  is set to \<open>now\<close> once \<^verbatim>\<open>move_to_qr\<close> has returned.
\<close>

theorem C2_gate_fires:
  assumes "cap s = Some c" and "opened c" and "ret t" and "detections t = m # ms"
    and "now t - last_move_time s > move_delay s"
  shows "dispatched (update_frame t s)
           = Some (robot_target (marker_center (corner m)) (center_frame (width t) (height t)))
         \<and> calls (update_frame t s) \<noteq> []
         \<and> (raised (update_frame t s) = None \<longrightarrow>
              last_move_time (after (update_frame t s)) = now t)"
  using assms
  by (simp add: update_frame_def move_to_qr_def Let_def split: prod.splits)

theorem C2_gate_fires_witness:
  "cap (init all_cameras) = Some \<lparr>cam_index = 0, opened = True\<rparr>
   \<and> ret (sample_tick 4 always_ok)
   \<and> detections (sample_tick 4 always_ok)
       = [\<lparr>tag_id = 1, corner = sample_quad\<rparr>, \<lparr>tag_id = 42, corner = unit_square\<rparr>]
   \<and> now (sample_tick 4 always_ok) - last_move_time (init all_cameras)
       > move_delay (init all_cameras)
   \<and> dispatched (update_frame (sample_tick 4 always_ok) (init all_cameras))
       = Some (1 / 10, 1 / 10, 1 / 10)
   \<and> raised (update_frame (sample_tick 4 always_ok) (init all_cameras)) = None
   \<and> last_move_time (after (update_frame (sample_tick 4 always_ok) (init all_cameras))) = 4"
  using C2_gate_fires [of "init all_cameras" "\<lparr>cam_index = 0, opened = True\<rparr>"
      "sample_tick 4 always_ok" "\<lparr>tag_id = 1, corner = sample_quad\<rparr>"
      "[\<lparr>tag_id = 42, corner = unit_square\<rparr>]"]
  by (simp add: sample_defs uf_defs)

text \<open>
  C10. The initial timestamp is 0, so the first tick with a detection at any time greater
  than \<open>move_delay\<close> calls \<^verbatim>\<open>move_to_qr\<close> for the first detection.
\<close>

theorem C10_first_tick_fires:
  assumes "avail 0" and "ret t" and "detections t = m # ms"
    and "now t > move_delay (init avail)"
  shows "last_move_time (init avail) = 0
         \<and> dispatched (update_frame t (init avail))
             = Some (robot_target (marker_center (corner m)) (center_frame (width t) (height t)))
         \<and> calls (update_frame t (init avail)) \<noteq> []"
  using assms
  by (simp add: update_frame_def init_def VideoCapture_def move_to_qr_def Let_def
      split: prod.splits)

theorem C10_first_tick_fires_witness:
  "all_cameras 0 \<and> ret (sample_tick (7 / 2) always_ok)
   \<and> detections (sample_tick (7 / 2) always_ok)
       = [\<lparr>tag_id = 1, corner = sample_quad\<rparr>, \<lparr>tag_id = 42, corner = unit_square\<rparr>]
   \<and> now (sample_tick (7 / 2) always_ok) > move_delay (init all_cameras)
   \<and> last_move_time (init all_cameras) = 0
   \<and> dispatched (update_frame (sample_tick (7 / 2) always_ok) (init all_cameras))
       = Some (1 / 10, 1 / 10, 1 / 10)"
  using C10_first_tick_fires [of all_cameras "sample_tick (7 / 2) always_ok"
      "\<lparr>tag_id = 1, corner = sample_quad\<rparr>" "[\<lparr>tag_id = 42, corner = unit_square\<rparr>]"]
  by (simp add: sample_defs uf_defs)

text \<open>
  C6. A tick whose detection list is empty calls neither \<^verbatim>\<open>move_to_qr\<close> nor the robot and
  leaves \<open>last_move_time\<close> and \<open>move_delay\<close> as they were.
\<close>

theorem C6_empty_detections:
  assumes "detections t = []"
  shows "dispatched (update_frame t s) = None
         \<and> calls (update_frame t s) = []
         \<and> last_move_time (after (update_frame t s)) = last_move_time s
         \<and> move_delay (after (update_frame t s)) = move_delay s"
  using assms
  by (simp add: update_frame_def Let_def split: option.splits)

theorem C6_empty_detections_witness:
  "detections (empty_tick 10) = []
   \<and> dispatched (update_frame (empty_tick 10) (init all_cameras)) = None
   \<and> calls (update_frame (empty_tick 10) (init all_cameras)) = []
   \<and> last_move_time (after (update_frame (empty_tick 10) (init all_cameras))) = 0
   \<and> move_delay (after (update_frame (empty_tick 10) (init all_cameras))) = 3"
  using C6_empty_detections [of "empty_tick 10" "init all_cameras"]
  by (simp add: sample_defs uf_defs)

subsection \<open>A robot call that raises\<close>

text \<open>
  C3. The claim asks that the timestamp be set to the dispatch time whether or not the
  actuation succeeds. The code sets it on line 293, after the call of line 292: when the
  first \<^verbatim>\<open>MoveJ\<close> raises at time 10, the tick has dispatched and has called the robot, the
  timestamp is still 0, and the tick at time 11 dispatches again.
\<close>

theorem C3_failed_actuation_keeps_timestamp:
  "dispatched (update_frame (sample_tick 10 refuses_moves) (init all_cameras))
     = Some (1 / 10, 1 / 10, 1 / 10)
   \<and> calls (update_frame (sample_tick 10 refuses_moves) (init all_cameras))
       = [PoseQuery, MoveJ \<lparr>rot = 0, pos = (100, 100, 100)\<rparr>]
   \<and> raised (update_frame (sample_tick 10 refuses_moves) (init all_cameras)) = Some RobotError
   \<and> last_move_time (after (update_frame (sample_tick 10 refuses_moves) (init all_cameras)))
       = 0
   \<and> now (sample_tick 10 refuses_moves) = 10
   \<and> dispatched (update_frame (sample_tick 11 always_ok)
        (after (update_frame (sample_tick 10 refuses_moves) (init all_cameras))))
       = Some (1 / 10, 1 / 10, 1 / 10)"
  by (simp add: sample_defs uf_defs)

text \<open>
  C1. The claim asks for at most one dispatch in any window of length \<open>move_delay\<close>. In the
  run of the two ticks above, at times 10 and 11, both ticks call \<^verbatim>\<open>move_to_qr\<close> and both
  call the robot: two dispatches in the window from 10 to 13.
\<close>

theorem C1_two_dispatches_in_window:
  "dispatch_times [sample_tick 10 refuses_moves, sample_tick 11 always_ok] (init all_cameras)
     = [10, 11]
   \<and> move_delay (init all_cameras) = 3
   \<and> dispatches_in_window 10 [sample_tick 10 refuses_moves, sample_tick 11 always_ok]
        (init all_cameras) = 2
   \<and> map calls (run [sample_tick 10 refuses_moves, sample_tick 11 always_ok] (init all_cameras))
       = [[PoseQuery, MoveJ \<lparr>rot = 0, pos = (100, 100, 100)\<rparr>],
          [PoseQuery, MoveJ \<lparr>rot = 0, pos = (100, 100, 100)\<rparr>,
           RunInstruction ''GripperClose'', MoveJ \<lparr>rot = 0, pos = (100, 100, 200)\<rparr>]]"
  by (simp add: dispatches_in_window_def sample_defs uf_defs)

subsection \<open>The pick sequence on the wire\<close>

text \<open>
  C5. A tick that called \<^verbatim>\<open>move_to_qr\<close> with \<open>(x, y, z)\<close> and returned has made exactly these
  robot calls, in order: the pose query, a move to \<open>(1000 x, 1000 y, 1000 z)\<close>, the
  instruction \<^verbatim>\<open>GripperClose\<close>, a move to \<open>(1000 x, 1000 y, 1000 (z + 0.1))\<close>.
\<close>

theorem C5_pick_sequence:
  assumes "dispatched (update_frame t s) = Some (x, y, z)"
    and "raised (update_frame t s) = None"
  shows "calls (update_frame t s) =
           [PoseQuery,
            MoveJ ((robot_pose t)\<lparr>pos := (x * 1000, y * 1000, z * 1000)\<rparr>),
            RunInstruction ''GripperClose'',
            MoveJ ((robot_pose t)\<lparr>pos := (x * 1000, y * 1000, (z + 1 / 10) * 1000)\<rparr>)]"
  using assms
  by (auto simp add: update_frame_def move_to_qr_def Let_def
      split: option.splits list.splits prod.splits if_splits)

theorem C5_pick_sequence_witness:
  "dispatched (update_frame (sample_tick 10 always_ok) (init all_cameras))
     = Some (1 / 10, 1 / 10, 1 / 10)
   \<and> raised (update_frame (sample_tick 10 always_ok) (init all_cameras)) = None
   \<and> calls (update_frame (sample_tick 10 always_ok) (init all_cameras)) =
       [PoseQuery, MoveJ \<lparr>rot = 0, pos = (100, 100, 100)\<rparr>,
        RunInstruction ''GripperClose'', MoveJ \<lparr>rot = 0, pos = (100, 100, 200)\<rparr>]"
  using C5_pick_sequence [of "sample_tick 10 always_ok" "init all_cameras" "1 / 10" "1 / 10" "1 / 10"]
  by (simp add: sample_defs uf_defs)

subsection \<open>Switching the camera\<close>

lemma update_frame_closed:
  "cap s = Some c \<Longrightarrow> \<not> opened c \<Longrightarrow>
   update_frame t s =
     \<lparr>raised = None, dispatched = None, calls = [],
      after = s\<lparr>video_label := LText ''Camera not plugged in''\<rparr>\<rparr>"
  by (simp add: update_frame_def)

lemma run_closed_camera:
  "cap s = Some c \<Longrightarrow> \<not> opened c \<Longrightarrow>
   length (run ts s) = length ts
   \<and> (\<forall>r \<in> set (run ts s). raised r = None \<and> calls r = []
         \<and> video_label (after r) = LText ''Camera not plugged in'')"
proof (induction ts arbitrary: s)
  case Nil
  show ?case by simp
next
  case (Cons t ts)
  let ?s' = "s\<lparr>video_label := LText ''Camera not plugged in''\<rparr>"
  have u: "update_frame t s =
     \<lparr>raised = None, dispatched = None, calls = [], after = ?s'\<rparr>"
    using Cons.prems by (rule update_frame_closed)
  have "cap ?s' = Some c" using Cons.prems by simp
  from Cons.IH[OF this Cons.prems(2)] show ?case
    unfolding run.simps u by (simp add: Let_def)
qed


text \<open>
  C9. \<^verbatim>\<open>change_camera\<close> releases the handle it holds and then acquires the new one, for
  every index. When the new index cannot be opened the video label reports it, and every
  later tick returns normally, without calling the robot, with the same report.
\<close>

theorem C9_change_camera:
  assumes "cap s = Some c"
  shows "fst (change_camera avail i s) = [Release (cam_index c), Acquire i]
         \<and> (\<not> avail i \<longrightarrow>
              video_label (snd (change_camera avail i s)) = LText ''Camera not plugged in''
              \<and> length (run ts (snd (change_camera avail i s))) = length ts
              \<and> (\<forall>r \<in> set (run ts (snd (change_camera avail i s))).
                    raised r = None \<and> calls r = []
                    \<and> video_label (after r) = LText ''Camera not plugged in''))"
proof -
  let ?s' = "snd (change_camera avail i s)"
  have ev: "fst (change_camera avail i s) = [Release (cam_index c), Acquire i]"
    using assms by (simp add: change_camera_def Let_def)
  have rest: "video_label ?s' = LText ''Camera not plugged in''
      \<and> length (run ts ?s') = length ts
      \<and> (\<forall>r \<in> set (run ts ?s'). raised r = None \<and> calls r = []
            \<and> video_label (after r) = LText ''Camera not plugged in'')" if na: "\<not> avail i"
  proof -
    have c': "cap ?s' = Some \<lparr>cam_index = i, opened = False\<rparr>"
      using na by (simp add: change_camera_def Let_def VideoCapture_def)
    have l: "video_label ?s' = LText ''Camera not plugged in''"
      using na by (simp add: change_camera_def Let_def VideoCapture_def)
    have n: "\<not> opened \<lparr>cam_index = i, opened = False\<rparr>" by simp
    have r: "length (run ts ?s') = length ts
      \<and> (\<forall>r \<in> set (run ts ?s'). raised r = None \<and> calls r = []
            \<and> video_label (after r) = LText ''Camera not plugged in'')"
      by (rule run_closed_camera[OF c' n])
    from l r show ?thesis by (rule conjI)
  qed
  show ?thesis
  proof (rule conjI)
    show "fst (change_camera avail i s) = [Release (cam_index c), Acquire i]" by (rule ev)
  next
    show "\<not> avail i \<longrightarrow>
              video_label ?s' = LText ''Camera not plugged in''
              \<and> length (run ts ?s') = length ts
              \<and> (\<forall>r \<in> set (run ts ?s').
                    raised r = None \<and> calls r = []
                    \<and> video_label (after r) = LText ''Camera not plugged in'')"
      by (rule impI) (rule rest)
  qed
qed

theorem C9_change_camera_witness:
  "cap (init only_camera0) = Some \<lparr>cam_index = 0, opened = True\<rparr>
   \<and> \<not> only_camera0 1
   \<and> fst (change_camera only_camera0 1 (init only_camera0)) = [Release 0, Acquire 1]
   \<and> video_label (snd (change_camera only_camera0 1 (init only_camera0)))
       = LText ''Camera not plugged in''
   \<and> length (run [sample_tick 10 always_ok, sample_tick 20 always_ok]
        (snd (change_camera only_camera0 1 (init only_camera0))))
       = length [sample_tick 10 always_ok, sample_tick 20 always_ok]"
proof -
  have c: "cap (init only_camera0) = Some \<lparr>cam_index = 0, opened = True\<rparr>"
    by (simp add: init_def VideoCapture_def only_camera0_def Let_def)
  have n: "\<not> only_camera0 1"
    by (simp add: only_camera0_def)
  note t = C9_change_camera [OF c, of only_camera0 1
      "[sample_tick 10 always_ok, sample_tick 20 always_ok]"]
  have e: "fst (change_camera only_camera0 1 (init only_camera0)) = [Release 0, Acquire 1]"
    using t [THEN conjunct1] by (simp only: capture.simps)
  have r: "video_label (snd (change_camera only_camera0 1 (init only_camera0)))
       = LText ''Camera not plugged in''
     \<and> length (run [sample_tick 10 always_ok, sample_tick 20 always_ok]
        (snd (change_camera only_camera0 1 (init only_camera0))))
       = length [sample_tick 10 always_ok, sample_tick 20 always_ok]
     \<and> (\<forall>r \<in> set (run [sample_tick 10 always_ok, sample_tick 20 always_ok]
            (snd (change_camera only_camera0 1 (init only_camera0)))).
          raised r = None \<and> calls r = []
          \<and> video_label (after r) = LText ''Camera not plugged in'')"
    using t [THEN conjunct2] n by (rule mp)
  from c n e r [THEN conjunct1] r [THEN conjunct2, THEN conjunct1]
  show ?thesis by (intro conjI)
qed

subsection \<open>The marker centre\<close>

lemma floor_half: "\<lfloor>1 / 2 :: rat\<rfloor> = 0"
  by (simp add: floor_eq_iff)

lemma astype_int_bounds:
  "\<bar>of_int (astype_int q) - q\<bar> < 1 \<and> \<bar>of_int (astype_int q) :: rat\<bar> \<le> \<bar>q\<bar>"
proof (cases "0 \<le> q")
  case True
  then have "0 \<le> \<lfloor>q\<rfloor>" by simp
  moreover have "of_int \<lfloor>q\<rfloor> \<le> q" and "q < of_int \<lfloor>q\<rfloor> + 1" by linarith+
  ultimately show ?thesis using True by (simp add: astype_int_def)
next
  case False
  then have "\<lceil>q\<rceil> \<le> 0" by simp
  then have "(of_int \<lceil>q\<rceil> :: rat) \<le> 0" by simp
  moreover have "q \<le> of_int \<lceil>q\<rceil>" and "of_int \<lceil>q\<rceil> < q + 1" by linarith+
  ultimately show ?thesis using False by (simp add: astype_int_def)
qed


text \<open>
  C8, as stated, fails: the corners (0, 0), (1, 0), (1, 1), (0, 1) have the mean
  (1/2, 1/2), and the centre the pipeline uses and draws for them is (0, 0);
  \<^verbatim>\<open>astype(int)\<close> cuts the fraction off.
\<close>

theorem C8_exact_mean_counterexample:
  "mean_axis0 unit_square = (1 / 2, 1 / 2)
   \<and> marker_center unit_square = (0, 0)
   \<and> (of_int (fst (marker_center unit_square)), of_int (snd (marker_center unit_square)))
       \<noteq> mean_axis0 unit_square
   \<and> detections (sample_tick 10 always_ok)
       = [\<lparr>tag_id = 1, corner = sample_quad\<rparr>, \<lparr>tag_id = 42, corner = unit_square\<rparr>]
   \<and> video_label (after (update_frame (sample_tick 10 always_ok) (init all_cameras)))
       = LPixmap [\<lparr>ann_center = (740, 260), ann_rel = (100, 100), ann_seed = Some ''Porumb''\<rparr>,
                  \<lparr>ann_center = (0, 0), ann_rel = (- 640, 360), ann_seed = None\<rparr>]"
  by (simp add: sample_defs uf_defs annotate_def tag_info_def floor_half)

lemma marker_center_bounds:
  "\<bar>of_int (fst (marker_center q)) - fst (mean_axis0 q)\<bar> < 1
   \<and> \<bar>of_int (fst (marker_center q)) :: rat\<bar> \<le> \<bar>fst (mean_axis0 q)\<bar>
   \<and> \<bar>of_int (snd (marker_center q)) - snd (mean_axis0 q)\<bar> < 1
   \<and> \<bar>of_int (snd (marker_center q)) :: rat\<bar> \<le> \<bar>snd (mean_axis0 q)\<bar>"
  using astype_int_bounds[of "fst (mean_axis0 q)"] astype_int_bounds[of "snd (mean_axis0 q)"]
  by (simp only: marker_center_def fst_conv snd_conv)

lemma dispatched_first:
  "dispatched (update_frame t s) = Some tgt \<Longrightarrow>
   \<exists>m ms. detections t = m # ms
      \<and> tgt = robot_target (marker_center (corner m)) (center_frame (width t) (height t))"
  by (auto simp add: update_frame_def Let_def
      split: option.splits list.splits prod.splits if_splits)

lemma overlay_all:
  "cap s = Some c \<Longrightarrow> opened c \<Longrightarrow> ret t \<Longrightarrow> raised (update_frame t s) = None \<Longrightarrow>
   video_label (after (update_frame t s))
     = LPixmap (map (annotate (center_frame (width t) (height t))) (detections t))"
  by (auto simp add: update_frame_def Let_def
      split: option.splits list.splits prod.splits if_splits)

lemma ann_center_annotate: "ann_center (annotate cf m) = marker_center (corner m)"
  by (simp add: annotate_def Let_def)


text \<open>
  C8, as amended. The centre the pipeline uses is the mean of the four corners with each
  coordinate truncated toward zero to an integer: it is less than one pixel from the mean
  and not larger in absolute value. The dispatched target is computed from the centre of
  the first detection, and every overlay of a tick that returns carries the centre of its
  marker.
\<close>

theorem C8_centroid_truncated_mean:
  "(\<bar>of_int (fst (marker_center q)) - fst (mean_axis0 q)\<bar> < 1
    \<and> \<bar>of_int (fst (marker_center q)) :: rat\<bar> \<le> \<bar>fst (mean_axis0 q)\<bar>
    \<and> \<bar>of_int (snd (marker_center q)) - snd (mean_axis0 q)\<bar> < 1
    \<and> \<bar>of_int (snd (marker_center q)) :: rat\<bar> \<le> \<bar>snd (mean_axis0 q)\<bar>)
   \<and> (dispatched (update_frame t s) = Some tgt \<longrightarrow>
        (\<exists>m ms. detections t = m # ms
           \<and> tgt = robot_target (marker_center (corner m))
                     (center_frame (width t) (height t))))
   \<and> (cap s = Some c \<and> opened c \<and> ret t \<and> raised (update_frame t s) = None \<longrightarrow>
        video_label (after (update_frame t s))
          = LPixmap (map (annotate (center_frame (width t) (height t))) (detections t)))
   \<and> ann_center (annotate cf m') = marker_center (corner m')"
proof (intro conjI impI)
  show "\<bar>of_int (fst (marker_center q)) - fst (mean_axis0 q)\<bar> < 1"
    and "\<bar>of_int (fst (marker_center q)) :: rat\<bar> \<le> \<bar>fst (mean_axis0 q)\<bar>"
    and "\<bar>of_int (snd (marker_center q)) - snd (mean_axis0 q)\<bar> < 1"
    and "\<bar>of_int (snd (marker_center q)) :: rat\<bar> \<le> \<bar>snd (mean_axis0 q)\<bar>"
    using marker_center_bounds [of q] by blast+
next
  assume "dispatched (update_frame t s) = Some tgt"
  then show "\<exists>m ms. detections t = m # ms
      \<and> tgt = robot_target (marker_center (corner m)) (center_frame (width t) (height t))"
    by (rule dispatched_first)
next
  assume "cap s = Some c \<and> opened c \<and> ret t \<and> raised (update_frame t s) = None"
  then have "cap s = Some c" and "opened c" and "ret t" and "raised (update_frame t s) = None"
    by blast+
  then show "video_label (after (update_frame t s))
      = LPixmap (map (annotate (center_frame (width t) (height t))) (detections t))"
    by (rule overlay_all)
next
  show "ann_center (annotate cf m') = marker_center (corner m')"
    by (rule ann_center_annotate)
qed

theorem C8_centroid_truncated_mean_witness:
  "dispatched (update_frame (sample_tick 10 always_ok) (init all_cameras))
     = Some (1 / 10, 1 / 10, 1 / 10)
   \<and> (cap (init all_cameras) = Some \<lparr>cam_index = 0, opened = True\<rparr>
      \<and> opened \<lparr>cam_index = 0, opened = True\<rparr>
      \<and> ret (sample_tick 10 always_ok)
      \<and> raised (update_frame (sample_tick 10 always_ok) (init all_cameras)) = None)
   \<and> (\<exists>m ms. detections (sample_tick 10 always_ok) = m # ms
        \<and> (1 / 10, 1 / 10, 1 / 10) = robot_target (marker_center (corner m))
             (center_frame (width (sample_tick 10 always_ok)) (height (sample_tick 10 always_ok))))
   \<and> video_label (after (update_frame (sample_tick 10 always_ok) (init all_cameras)))
       = LPixmap (map (annotate (center_frame (width (sample_tick 10 always_ok))
            (height (sample_tick 10 always_ok)))) (detections (sample_tick 10 always_ok)))
   \<and> \<bar>of_int (fst (marker_center unit_square)) - fst (mean_axis0 unit_square)\<bar> < 1"
proof -
  have d: "dispatched (update_frame (sample_tick 10 always_ok) (init all_cameras))
     = Some (1 / 10, 1 / 10, 1 / 10)"
    by (simp add: sample_defs uf_defs)
  have h: "cap (init all_cameras) = Some \<lparr>cam_index = 0, opened = True\<rparr>
      \<and> opened \<lparr>cam_index = 0, opened = True\<rparr>
      \<and> ret (sample_tick 10 always_ok)
      \<and> raised (update_frame (sample_tick 10 always_ok) (init all_cameras)) = None"
    by (simp add: sample_defs uf_defs)
  note t = C8_centroid_truncated_mean [of unit_square "sample_tick 10 always_ok"
      "init all_cameras" "(1 / 10, 1 / 10, 1 / 10)" "\<lparr>cam_index = 0, opened = True\<rparr>"]
  have b: "\<bar>of_int (fst (marker_center unit_square)) - fst (mean_axis0 unit_square)\<bar> < 1"
    using t [THEN conjunct1, THEN conjunct1] .
  have e: "\<exists>m ms. detections (sample_tick 10 always_ok) = m # ms
        \<and> (1 / 10, 1 / 10, 1 / 10) = robot_target (marker_center (corner m))
             (center_frame (width (sample_tick 10 always_ok)) (height (sample_tick 10 always_ok)))"
    using t [THEN conjunct2, THEN conjunct1] d by (rule mp)
  have v: "video_label (after (update_frame (sample_tick 10 always_ok) (init all_cameras)))
       = LPixmap (map (annotate (center_frame (width (sample_tick 10 always_ok))
            (height (sample_tick 10 always_ok)))) (detections (sample_tick 10 always_ok)))"
    using t [THEN conjunct2, THEN conjunct2, THEN conjunct1] h by (rule mp)
  show ?thesis
    by (rule conjI [OF d conjI [OF h conjI [OF e conjI [OF v b]]]])
qed

end
